theory Spec2Isabelle
  imports Complex_Main "HOL-Library.Word"
begin

section \<open>Command-line configuration\<close>

text \<open>
  The three programs (\<^verbatim>\<open>ghz_20q.cpp\<close>, the C Bell program and the C++ Bell program)
  read their configuration from \<^verbatim>\<open>argv\<close> with the C library's \<^verbatim>\<open>atoi\<close>.
  \<^verbatim>\<open>atoi\<close> is modelled after the C standard: it skips leading white space, reads an
  optional sign and the longest run of decimal digits, and ignores whatever follows;
  with no digit the value is 0. When the value does not fit an \<^verbatim>\<open>int\<close> the behaviour
  is undefined, which the model returns as \<open>None\<close>.
\<close>

definition isspace_c :: "char \<Rightarrow> bool" where
  "isspace_c c = (c = CHR '' '' \<or> c = CHR 0x09 \<or> c = CHR 0x0A \<or> c = CHR 0x0B
                  \<or> c = CHR 0x0C \<or> c = CHR 0x0D)"

definition isdigit_c :: "char \<Rightarrow> bool" where
  "isdigit_c c = (48 \<le> (of_char c :: nat) \<and> (of_char c :: nat) \<le> 57)"

definition digit_value :: "char \<Rightarrow> int" where
  "digit_value c = int (of_char c) - 48"

fun atoi_digits :: "int \<Rightarrow> string \<Rightarrow> int" where
  "atoi_digits acc [] = acc"
| "atoi_digits acc (c # cs) =
     (if isdigit_c c then atoi_digits (10 * acc + digit_value c) cs else acc)"

definition INT_MIN :: int where
  "INT_MIN = - (2 ^ 31)"

definition INT_MAX :: int where
  "INT_MAX = 2 ^ 31 - 1"

fun atoi_signed :: "string \<Rightarrow> int" where
  "atoi_signed [] = 0"
| "atoi_signed (c # cs) =
     (if c = CHR ''-'' then - atoi_digits 0 cs
      else if c = CHR ''+'' then atoi_digits 0 cs
      else atoi_digits 0 (c # cs))"

definition atoi :: "string \<Rightarrow> int option" where
  "atoi s =
     (let v = atoi_signed (dropWhile isspace_c s)
      in if INT_MIN \<le> v \<and> v \<le> INT_MAX then Some v else None)"

record config =
  num_qubits :: int
  backend_name :: string
  num_shots :: int

text \<open>
  What the argument handling at the top of a \<^verbatim>\<open>main\<close> leads to: an early
  \<^verbatim>\<open>return\<close> with an exit status and the lines written to the error stream, undefined
  behaviour (an \<^verbatim>\<open>atoi\<close> overflow), or a configuration with which \<^verbatim>\<open>main\<close> goes on to
  build the circuit and contact the service.
\<close>

datatype parsed = Exit int "string list" | Undefined | Run config

definition print_usage :: "string \<Rightarrow> string list" where
  "print_usage program_name =
     [''Usage: '' @ program_name @ '' <num_qubits> <backend> [shots]'',
      '''',
      ''Arguments:'',
      ''  num_qubits  Number of qubits in the GHZ state (2-127)'',
      ''  backend     IBM Quantum backend name (e.g., ibm_fez, ibm_torino)'',
      ''  shots       Number of shots (default: 1024)'',
      '''',
      ''Examples:'',
      ''  '' @ program_name @ '' 20 ibm_fez'',
      ''  '' @ program_name @ '' 50 ibm_torino 2048'']"

text \<open>
  \<^verbatim>\<open>argv\<close> is the program name \<open>prog\<close> followed by \<open>args\<close>, so \<^verbatim>\<open>argc\<close> is
  \<open>1 + length args\<close> and \<^verbatim>\<open>argv[i + 1]\<close> is \<open>args ! i\<close>. Lines 48 to 62 of
  \<^verbatim>\<open>ghz_20q.cpp\<close>: both \<^verbatim>\<open>atoi\<close> calls come before the range check of
  \<^verbatim>\<open>num_qubits\<close>, and \<^verbatim>\<open>num_shots\<close> is never checked.
\<close>

definition ghz_parse :: "string \<Rightarrow> string list \<Rightarrow> parsed" where
  "ghz_parse prog args =
     (if 1 + length args < 3 then Exit 1 (print_usage prog)
      else
        case atoi (args ! 0) of
          None \<Rightarrow> Undefined
        | Some nq \<Rightarrow>
            (case (if 1 + length args > 3 then atoi (args ! 2) else Some 1024) of
               None \<Rightarrow> Undefined
             | Some ns \<Rightarrow>
                 if nq < 2 \<or> nq > 127
                 then Exit 1 [''Error: num_qubits must be between 2 and 127'']
                 else Run \<lparr>num_qubits = nq, backend_name = args ! 1, num_shots = ns\<rparr>))"

text \<open>
  The two Bell programs (lines 17 to 27 and 225 to 236 of \<^verbatim>\<open>bell_state_c.c\<close>): the
  circuit always has two qubits, every argument is optional and nothing is validated.
\<close>

definition bell_c_parse :: "string \<Rightarrow> string list \<Rightarrow> parsed" where
  "bell_c_parse prog args =
     (let backend = (if 1 + length args > 1 then args ! 0 else ''ibm_fez'')
      in case (if 1 + length args > 2 then atoi (args ! 1) else Some 1024) of
           None \<Rightarrow> Undefined
         | Some ns \<Rightarrow> Run \<lparr>num_qubits = 2, backend_name = backend, num_shots = ns\<rparr>)"

definition bell_cpp_parse :: "string \<Rightarrow> string list \<Rightarrow> parsed" where
  "bell_cpp_parse prog args =
     (let backend = (if 1 + length args > 1 then args ! 0 else ''ibm_torino'')
      in case (if 1 + length args > 2 then atoi (args ! 1) else Some 1024) of
           None \<Rightarrow> Undefined
         | Some ns \<Rightarrow> Run \<lparr>num_qubits = 2, backend_name = backend, num_shots = ns\<rparr>)"

section \<open>Percentages\<close>

text \<open>
  Every percentage of a report is the \<^verbatim>\<open>double\<close> expression
  \<^verbatim>\<open>100.0 * count / total\<close> on two integers. Its value is modelled by cases of
  IEEE 754 division: \<open>0 / 0\<close> is not a number, a positive count over \<open>0\<close> is plus
  infinity, a negative count (a counter that has wrapped around) over \<open>0\<close> is minus
  infinity, \<open>0\<close> over a negative total is the negative zero, and every other quotient
  is \<open>Finite q\<close>, standing for the \<^verbatim>\<open>double\<close> nearest to the rational \<open>q\<close>.
  The comparison \<^verbatim>\<open>percentage > 1.0\<close> is decided on \<open>q\<close>: for totals below \<open>2 ^ 31\<close>
  a quotient above 1 is above \<open>1 + 2 ^ -31\<close>, so rounding cannot move it to 1.
\<close>

datatype fp = NaN | PosInf | NegInf | NegZero | Finite rat

definition percentage :: "int \<Rightarrow> int \<Rightarrow> fp" where
  "percentage cnt tot =
     (if tot = 0 then (if cnt = 0 then NaN else if 0 < cnt then PosInf else NegInf)
      else if cnt = 0 \<and> tot < 0 then NegZero
      else Finite (of_int (100 * cnt) / of_int tot))"

definition exceeds_one :: "fp \<Rightarrow> bool" where
  "exceeds_one p =
     (case p of NaN \<Rightarrow> False | PosInf \<Rightarrow> True | NegInf \<Rightarrow> False | NegZero \<Rightarrow> False
      | Finite q \<Rightarrow> 1 < q)"

text \<open>A printed line: the key or label, the integer printed as the count, the percentage.\<close>

record report_line =
  label :: string
  line_count :: int
  line_pct :: fp

section \<open>The N-qubit program: classification and report\<close>

text \<open>
  Lines 142 to 146 of \<^verbatim>\<open>ghz_20q.cpp\<close>: \<^verbatim>\<open>(1ULL << num_qubits) - 1\<close> on a 64-bit
  \<^verbatim>\<open>unsigned long long\<close>, written in lower-case hexadecimal after \<^verbatim>\<open>0x\<close>. C++ leaves
  a shift by 64 or more undefined; \<open>ub n\<close> stands for the 64-bit value a platform produces
  there (x86-64 and AArch64 shift by \<open>n mod 64\<close>).
\<close>

definition shl_ull :: "(nat \<Rightarrow> 64 word) \<Rightarrow> nat \<Rightarrow> 64 word" where
  "shl_ull ub n = (if n < 64 then push_bit n 1 else ub n)"

definition all_ones_value :: "(nat \<Rightarrow> 64 word) \<Rightarrow> nat \<Rightarrow> 64 word" where
  "all_ones_value ub n = shl_ull ub n - 1"

definition hex_digit :: "nat \<Rightarrow> char" where
  "hex_digit d = ''0123456789abcdef'' ! d"

fun hex_of_nat :: "nat \<Rightarrow> string" where
  "hex_of_nat n =
     (if n < 16 then [hex_digit n] else hex_of_nat (n div 16) @ [hex_digit (n mod 16)])"

declare hex_of_nat.simps [simp del]

definition hex_ones_str :: "(nat \<Rightarrow> 64 word) \<Rightarrow> nat \<Rightarrow> string" where
  "hex_ones_str ub n = ''0x'' @ hex_of_nat (unat (all_ones_value ub n))"

text \<open>
  The three counters of lines 134 to 136 are 32-bit \<^verbatim>\<open>int\<close>s, read with \<open>sint\<close>. The
  counts of the service are an association list in the order in which the loop of line
  148 visits them, with one entry per key; a count is the unsigned number the SDK
  holds for the key, a natural number.
\<close>

record tally =
  count_all_zeros :: "32 word"
  count_all_ones :: "32 word"
  count_other :: "32 word"

text \<open>
  Lines 149 to 155: the two reference buckets are assigned, the third is added to. The
  assignment narrows the count to \<^verbatim>\<open>int\<close>, and the addition is narrowed likewise: both
  keep the low 32 bits, so a counter wraps around from \<open>2 ^ 31\<close> on.
\<close>

definition classify :: "string \<Rightarrow> string \<Rightarrow> string \<Rightarrow> string \<times> nat \<Rightarrow> tally \<Rightarrow> tally" where
  "classify all_zeros all_ones hex_ones c t =
     (if fst c = all_zeros \<or> fst c = ''0x0'' \<or> fst c = ''0''
      then t\<lparr>count_all_zeros := word_of_nat (snd c)\<rparr>
      else if fst c = all_ones \<or> fst c = hex_ones
      then t\<lparr>count_all_ones := word_of_nat (snd c)\<rparr>
      else t\<lparr>count_other := count_other t + word_of_nat (snd c)\<rparr>)"

text \<open>Lines 157 to 163: the line printed for one entry, if any.\<close>

definition detail :: "int \<Rightarrow> string \<times> nat \<Rightarrow> report_line list" where
  "detail shots c =
     (let pct = percentage (int (snd c)) shots
      in if exceeds_one pct
         then [\<lparr>label = fst c, line_count = int (snd c), line_pct = pct\<rparr>]
         else [])"

fun ghz_loop ::
  "int \<Rightarrow> string \<Rightarrow> string \<Rightarrow> string \<Rightarrow> (string \<times> nat) list \<Rightarrow>
   tally \<times> report_line list \<Rightarrow> tally \<times> report_line list" where
  "ghz_loop shots az ao hx [] st = st"
| "ghz_loop shots az ao hx (c # cs) (t, out) =
     ghz_loop shots az ao hx cs (classify az ao hx c t, out @ detail shots c)"

record report =
  details :: "report_line list"
  summary :: "report_line list"

text \<open>Lines 133 to 175: the reference strings, the loop and the three summary lines.\<close>

definition ghz_report :: "(nat \<Rightarrow> 64 word) \<Rightarrow> config \<Rightarrow> (string \<times> nat) list \<Rightarrow> report" where
  "ghz_report ub cfg counts =
     (let n = nat (num_qubits cfg);
          all_zeros = replicate n CHR ''0'';
          all_ones = replicate n CHR ''1'';
          hex_ones = hex_ones_str ub n;
          st = ghz_loop (num_shots cfg) all_zeros all_ones hex_ones counts
                 (\<lparr>count_all_zeros = 0, count_all_ones = 0, count_other = 0\<rparr>, [])
      in \<lparr>details = snd st,
          summary =
            [\<lparr>label = ''All 0s'', line_count = sint (count_all_zeros (fst st)),
              line_pct = percentage (sint (count_all_zeros (fst st))) (num_shots cfg)\<rparr>,
             \<lparr>label = ''All 1s'', line_count = sint (count_all_ones (fst st)),
              line_pct = percentage (sint (count_all_ones (fst st))) (num_shots cfg)\<rparr>,
             \<lparr>label = ''Other (noise)'', line_count = sint (count_other (fst st)),
              line_pct = percentage (sint (count_other (fst st))) (num_shots cfg)\<rparr>]\<rparr>)"

text \<open>
  The whole of \<^verbatim>\<open>main\<close>. The vendor SDK (service, transpiler, sampler, job) is the
  function \<open>service\<close>: from the configuration to the counts, or \<open>None\<close> when the job
  pointer is null (line 116). It is called only once the arguments are accepted. An
  exception thrown inside the SDK ends the program and is outside this model.
\<close>

datatype finished = Exited int "string list" | Undefined_Behaviour | Reported report

definition ghz_main ::
  "(nat \<Rightarrow> 64 word) \<Rightarrow> (config \<Rightarrow> (string \<times> nat) list option) \<Rightarrow>
   string \<Rightarrow> string list \<Rightarrow> finished" where
  "ghz_main ub service prog args =
     (case ghz_parse prog args of
        Exit status err \<Rightarrow> Exited status err
      | Undefined \<Rightarrow> Undefined_Behaviour
      | Run cfg \<Rightarrow>
          (case service cfg of
             None \<Rightarrow> Exited (- 1) [''Error: Failed to submit job'']
           | Some counts \<Rightarrow> Reported (ghz_report ub cfg counts)))"

section \<open>The two-qubit programs: counting and report\<close>

text \<open>
  Lines 153 to 167 of the C program. A sample is \<open>None\<close> for a null pointer and
  otherwise the \<^verbatim>\<open>long\<close> (64 bits on Linux and macOS) that
  \<^verbatim>\<open>strtol(sample, NULL, 0)\<close> returns; the cast to \<^verbatim>\<open>int\<close> keeps its low 32 bits.
  The four counters of line 155 are 32-bit \<^verbatim>\<open>int\<close>s, read with \<open>sint\<close>: the increment
  of line 163 wraps around at \<open>2 ^ 31\<close>, as two's complement hardware does.
\<close>

definition in_range :: "32 word \<Rightarrow> bool" where
  "in_range v = (0 \<le> sint v \<and> sint v < 4)"

fun count_samples :: "32 word list \<Rightarrow> 64 word option list \<Rightarrow> 32 word list" where
  "count_samples counts [] = counts"
| "count_samples counts (None # ss) = count_samples counts ss"
| "count_samples counts (Some l # ss) =
     (let v = (ucast l :: 32 word)
      in if in_range v
         then count_samples (counts[nat (sint v) := counts ! nat (sint v) + 1]) ss
         else count_samples counts ss)"

text \<open>
  Lines 169 to 173: four lines, always, each over \<^verbatim>\<open>num_samples\<close>, the number of
  samples the service returned.
\<close>

definition bell_c_report :: "64 word option list \<Rightarrow> report_line list" where
  "bell_c_report samples =
     (let num_samples = int (length samples);
          counts = count_samples [0, 0, 0, 0] samples
      in [\<lparr>label = ''00'', line_count = sint (counts ! 0),
           line_pct = percentage (sint (counts ! 0)) num_samples\<rparr>,
          \<lparr>label = ''01'', line_count = sint (counts ! 1),
           line_pct = percentage (sint (counts ! 1)) num_samples\<rparr>,
          \<lparr>label = ''10'', line_count = sint (counts ! 2),
           line_pct = percentage (sint (counts ! 2)) num_samples\<rparr>,
          \<lparr>label = ''11'', line_count = sint (counts ! 3),
           line_pct = percentage (sint (counts ! 3)) num_samples\<rparr>])"

text \<open>Lines 289 to 294, the C++ program: one line per entry of the counts, over \<^verbatim>\<open>num_shots\<close>.\<close>

definition bell_cpp_report :: "config \<Rightarrow> (string \<times> nat) list \<Rightarrow> report_line list" where
  "bell_cpp_report cfg counts =
     map (\<lambda>c. \<lparr>label = fst c, line_count = int (snd c),
                line_pct = percentage (int (snd c)) (num_shots cfg)\<rparr>) counts"

section \<open>Vocabulary of the properties\<close>

text \<open>
  Which branch of lines 149 to 155 a key takes, given the three reference strings, and
  which samples pass the guard of line 162 of the C program.
\<close>

definition zeros_key :: "string \<Rightarrow> string \<Rightarrow> bool" where
  "zeros_key all_zeros k = (k = all_zeros \<or> k = ''0x0'' \<or> k = ''0'')"

definition ones_key :: "string \<Rightarrow> string \<Rightarrow> string \<Rightarrow> string \<Rightarrow> bool" where
  "ones_key all_zeros all_ones hex_ones k =
     (\<not> zeros_key all_zeros k \<and> (k = all_ones \<or> k = hex_ones))"

definition other_key :: "string \<Rightarrow> string \<Rightarrow> string \<Rightarrow> string \<Rightarrow> bool" where
  "other_key all_zeros all_ones hex_ones k =
     (\<not> zeros_key all_zeros k \<and> k \<noteq> all_ones \<and> k \<noteq> hex_ones)"

definition accepted :: "64 word option \<Rightarrow> bool" where
  "accepted s = (case s of None \<Rightarrow> False | Some l \<Rightarrow> in_range (ucast l))"

section \<open>Properties of the configuration\<close>

lemmas atoi_eval = atoi_def isspace_c_def isdigit_c_def digit_value_def INT_MIN_def INT_MAX_def

lemma atoi_digits_no_digit: "\<forall>c\<in>set cs. \<not> isdigit_c c \<Longrightarrow> atoi_digits acc cs = acc"
  by (cases cs) simp_all

lemma atoi_signed_no_digit: "\<forall>c\<in>set cs. \<not> isdigit_c c \<Longrightarrow> atoi_signed cs = 0"
  by (cases cs) (simp_all add: atoi_digits_no_digit)

lemma atoi_no_digit:
  assumes "\<forall>c\<in>set s. \<not> isdigit_c c"
  shows "atoi s = Some 0"
proof -
  have "\<forall>c\<in>set (dropWhile isspace_c s). \<not> isdigit_c c"
    using assms set_dropWhileD by fastforce
  then have "atoi_signed (dropWhile isspace_c s) = 0"
    by (rule atoi_signed_no_digit)
  then show ?thesis
    by (simp add: atoi_def INT_MIN_def INT_MAX_def)
qed

text \<open>
  C10. With no command-line argument (\<^verbatim>\<open>argc = 1\<close>) neither Bell program stops with a
  usage error: the C program goes on with the backend \<^verbatim>\<open>ibm_fez\<close>, the C++ program with
  \<^verbatim>\<open>ibm_torino\<close>, both with 1024 shots.
\<close>

theorem bell_defaults:
  "bell_c_parse prog [] =
     Run \<lparr>num_qubits = 2, backend_name = ''ibm_fez'', num_shots = 1024\<rparr> \<and>
   bell_cpp_parse prog [] =
     Run \<lparr>num_qubits = 2, backend_name = ''ibm_torino'', num_shots = 1024\<rparr>"
  by (simp add: bell_c_parse_def bell_cpp_parse_def)

theorem bell_defaults_witness:
  "bell_c_parse ''bell_state_c'' [] =
     Run \<lparr>num_qubits = 2, backend_name = ''ibm_fez'', num_shots = 1024\<rparr> \<and>
   bell_cpp_parse ''bell_state'' [] =
     Run \<lparr>num_qubits = 2, backend_name = ''ibm_torino'', num_shots = 1024\<rparr>"
  using bell_defaults [of "''bell_state_c''"] bell_defaults [of "''bell_state''"] by simp

text \<open>
  C6, as the program has it. The shot count of the N-qubit program is 1024 when the
  third argument is absent; when it is present, the value \<^verbatim>\<open>atoi\<close> reads from it is
  taken as it is, be it zero or negative, and parsing the configuration does not fail on
  it. (The claim asks for a failure unless the argument is a positive integer.)
\<close>

theorem ghz_shots_unvalidated:
  assumes "atoi a1 = Some nq" and "2 \<le> nq" and "nq \<le> 127"
  shows "ghz_parse prog [a1, b] =
           Run \<lparr>num_qubits = nq, backend_name = b, num_shots = 1024\<rparr> \<and>
         (\<forall>a3 rest ns. atoi a3 = Some ns \<longrightarrow>
            ghz_parse prog (a1 # b # a3 # rest) =
              Run \<lparr>num_qubits = nq, backend_name = b, num_shots = ns\<rparr>)"
  using assms by (simp add: ghz_parse_def)

theorem ghz_shots_unvalidated_witness:
  "ghz_parse ''ghz_20q'' [''20'', ''ibm_fez''] =
     Run \<lparr>num_qubits = 20, backend_name = ''ibm_fez'', num_shots = 1024\<rparr> \<and>
   ghz_parse ''ghz_20q'' [''20'', ''ibm_fez'', ''-5''] =
     Run \<lparr>num_qubits = 20, backend_name = ''ibm_fez'', num_shots = - 5\<rparr>"
proof -
  have a: "atoi ''20'' = Some 20" by (simp add: atoi_eval)
  have b: "atoi ''-5'' = Some (- 5)" by (simp add: atoi_eval)
  show ?thesis
    using ghz_shots_unvalidated [OF a, of "''ghz_20q''" "''ibm_fez''"] b by simp
qed

text \<open>
  The claim C6 fails where the shot count is \<^verbatim>\<open>0\<close> or not a number: the program accepts
  both and goes on with zero shots.
\<close>

theorem ghz_zero_shots_accepted:
  "ghz_parse ''ghz_20q'' [''2'', ''ibm_fez'', ''0''] =
     Run \<lparr>num_qubits = 2, backend_name = ''ibm_fez'', num_shots = 0\<rparr> \<and>
   ghz_parse ''ghz_20q'' [''2'', ''ibm_fez'', ''many''] =
     Run \<lparr>num_qubits = 2, backend_name = ''ibm_fez'', num_shots = 0\<rparr>"
  by (simp add: ghz_parse_def atoi_eval)

text \<open>
  C7, as the program has it. When \<^verbatim>\<open>atoi\<close> reads from the qubit-count argument an
  integer outside \<open>[2, 127]\<close>, which includes every argument without a digit (read as
  0), \<^verbatim>\<open>main\<close> returns 1 whatever the service would answer, so the circuit is never
  built: with the usage block of lines 48 to 51 when the backend argument is missing,
  and otherwise with the message of line 60. This is for arguments whose numbers fit an
  \<^verbatim>\<open>int\<close>: beyond that \<^verbatim>\<open>atoi\<close> is undefined. (An argument that starts with digits is
  read up to its first other character, so it is not rejected for what follows them.)
\<close>

theorem ghz_rejects_qubit_count:
  assumes "args \<noteq> []"
    and "length args \<le> 2 \<or> atoi (args ! 2) \<noteq> None"
    and "(atoi (args ! 0) = Some nq \<and> (nq < 2 \<or> 127 < nq)) \<or>
         (\<forall>c\<in>set (args ! 0). \<not> isdigit_c c)"
  shows "ghz_main ub service prog args =
           (if length args < 2 then Exited 1 (print_usage prog)
            else Exited 1 [''Error: num_qubits must be between 2 and 127''])"
proof (cases "length args < 2")
  case True
  then show ?thesis
    by (simp add: ghz_main_def ghz_parse_def)
next
  case False
  obtain v where v: "atoi (args ! 0) = Some v" "v < 2 \<or> 127 < v"
    using assms(3) atoi_no_digit by fastforce
  obtain ns where ns:
    "(if 1 + length args > 3 then atoi (args ! 2) else Some 1024) = Some ns"
    using assms(2) by (cases "1 + length args > 3") auto
  show ?thesis
    unfolding ghz_main_def ghz_parse_def using False v ns by auto
qed

theorem ghz_rejects_qubit_count_witness:
  "ghz_main (\<lambda>n. 0) (\<lambda>cfg. Some []) ''ghz_20q'' [''128''] =
     Exited 1 (print_usage ''ghz_20q'') \<and>
   ghz_main (\<lambda>n. 0) (\<lambda>cfg. Some []) ''ghz_20q'' [''128'', ''ibm_fez''] =
     Exited 1 [''Error: num_qubits must be between 2 and 127''] \<and>
   ghz_main (\<lambda>n. 0) (\<lambda>cfg. Some []) ''ghz_20q'' [''twenty'', ''ibm_fez'', ''2048''] =
     Exited 1 [''Error: num_qubits must be between 2 and 127'']"
proof -
  have a: "atoi ''128'' = Some 128" by (simp add: atoi_eval)
  have b: "atoi ''2048'' \<noteq> None" by (simp add: atoi_eval)
  have c: "\<forall>c\<in>set ''twenty''. \<not> isdigit_c c" by (simp add: isdigit_c_def)
  show ?thesis
    using ghz_rejects_qubit_count [of "[''128'']" 128 "\<lambda>n. 0" "\<lambda>cfg. Some []" "''ghz_20q''"]
      ghz_rejects_qubit_count [of "[''128'', ''ibm_fez'']" 128 "\<lambda>n. 0" "\<lambda>cfg. Some []"
        "''ghz_20q''"]
      ghz_rejects_qubit_count [of "[''twenty'', ''ibm_fez'', ''2048'']" 0 "\<lambda>n. 0"
        "\<lambda>cfg. Some []" "''ghz_20q''"]
      a b c by simp
qed

text \<open>
  The claim C7 fails at the argument \<^verbatim>\<open>12abc\<close>, which is not a number: the program
  reads it as 12 qubits and goes on.
\<close>

theorem ghz_accepts_digit_prefix:
  "ghz_parse ''ghz_20q'' [''12abc'', ''ibm_fez''] =
     Run \<lparr>num_qubits = 12, backend_name = ''ibm_fez'', num_shots = 1024\<rparr>"
  by (simp add: ghz_parse_def atoi_eval)

text \<open>
  A qubit count beyond \<^verbatim>\<open>int\<close> is undefined behaviour of \<^verbatim>\<open>atoi\<close>, in the model as
  in ISO C; a C library that wraps around reads \<^verbatim>\<open>4294967298\<close> as 2.
\<close>

lemma ghz_beyond_int_undefined:
  "ghz_main ub service ''ghz_20q'' [''4294967298'', ''ibm_fez''] = Undefined_Behaviour"
  by (simp add: ghz_main_def ghz_parse_def atoi_eval)

section \<open>Properties of the all-ones reference value\<close>

lemma unat_two_power:
  assumes "n < 64"
  shows "unat ((2::64 word) ^ n) = 2 ^ n"
proof -
  have lt: "(2::nat) ^ n < 2 ^ LENGTH(64)"
    using assms by (intro power_strict_increasing) simp_all
  have "word_of_nat (2 ^ n) = (2::64 word) ^ n"
    by simp
  then show ?thesis
    using lt by (rule of_nat_inverse)
qed

text \<open>Up to 63 qubits the value of line 145 is \<open>2 ^ n - 1\<close>.\<close>

lemma all_ones_value_exact:
  assumes "n < 64"
  shows "unat (all_ones_value ub n) = 2 ^ n - 1"
proof -
  have u: "unat ((2::64 word) ^ n) = 2 ^ n"
    using assms by (rule unat_two_power)
  then have "(2::64 word) ^ n \<noteq> 0"
    by (metis power_not_zero unat_0 zero_neq_numeral)
  then have "unat ((2::64 word) ^ n - 1) = unat ((2::64 word) ^ n) - 1"
    by (rule unat_minus_one)
  with u assms show ?thesis
    by (simp add: all_ones_value_def shl_ull_def)
qed

text \<open>
  With the shift count taken modulo 64, as x86-64 and AArch64 do, 127 qubits give
  \<open>2 ^ 63 - 1\<close>, and 64 qubits give 0, whose string is a spelling of all-zeros.
\<close>

lemma all_ones_value_masked_shift:
  "unat (all_ones_value (\<lambda>n. push_bit (n mod 64) 1) 127) = 2 ^ 63 - 1 \<and>
   hex_ones_str (\<lambda>n. push_bit (n mod 64) 1) 127 = ''0x7fffffffffffffff'' \<and>
   hex_ones_str (\<lambda>n. push_bit (n mod 64) 1) 64 = ''0x0''"
  by (simp add: hex_ones_str_def all_ones_value_def shl_ull_def hex_of_nat.simps hex_digit_def)

text \<open>
  C1 at 127 qubits, a count the range check of line 59 accepts: whatever the undefined
  shift produces, the 64-bit value of line 145 is not \<open>2 ^ 127 - 1\<close>.
\<close>

theorem all_ones_value_overflow: "unat (all_ones_value ub 127) \<noteq> 2 ^ 127 - 1"
proof -
  have "unat (all_ones_value ub 127) < 2 ^ 64"
    using unsigned_less [of "all_ones_value ub 127"] by simp
  then show ?thesis by simp
qed

section \<open>Properties of the 32-bit counters\<close>

text \<open>Below \<open>2 ^ 31\<close> the narrowing of a count to \<^verbatim>\<open>int\<close> changes nothing.\<close>

lemma sint_of_nat_small:
  assumes "n < 2 ^ 31"
  shows "sint (word_of_nat n :: 32 word) = int n"
proof -
  have "sint (word_of_nat n :: 32 word) = signed_take_bit 31 (int n)"
    by (simp add: signed_of_nat)
  also have "\<dots> = int n"
    using assms by (intro signed_take_bit_int_eq_self) simp_all
  finally show ?thesis .
qed

lemma sint_unat_small:
  fixes w :: "32 word"
  assumes "unat w < 2 ^ 31"
  shows "sint w = int (unat w)"
  using sint_of_nat_small [OF assms] by simp

text \<open>Adding a count to a counter is addition of integers, narrowed.\<close>

lemma sint_add_of_nat:
  "sint (w + word_of_nat c) = sint (word_of_int (sint w + int c) :: 32 word)"
  for w :: "32 word"
  by simp

section \<open>Properties of the two loops\<close>

lemma ghz_loop_details:
  "snd (ghz_loop shots az ao hx cs (t, out)) = out @ concat (map (detail shots) cs)"
  by (induction cs arbitrary: t out) simp_all

lemma ghz_loop_other:
  "count_other (fst (ghz_loop shots az ao hx cs (t, out))) =
     count_other t +
     word_of_nat (sum_list (map snd (filter (\<lambda>c. other_key az ao hx (fst c)) cs)))"
  by (induction cs arbitrary: t out)
     (simp_all add: classify_def other_key_def zeros_key_def)

lemma ghz_loop_zeros:
  "count_all_zeros (fst (ghz_loop shots az ao hx cs (t, out))) =
     (if filter (\<lambda>c. zeros_key az (fst c)) cs = [] then count_all_zeros t
      else word_of_nat (snd (last (filter (\<lambda>c. zeros_key az (fst c)) cs))))"
  by (induction cs arbitrary: t out)
     (simp_all add: classify_def zeros_key_def)

lemma ghz_loop_ones:
  "count_all_ones (fst (ghz_loop shots az ao hx cs (t, out))) =
     (if filter (\<lambda>c. ones_key az ao hx (fst c)) cs = [] then count_all_ones t
      else word_of_nat (snd (last (filter (\<lambda>c. ones_key az ao hx (fst c)) cs))))"
  by (induction cs arbitrary: t out)
     (simp_all add: classify_def ones_key_def zeros_key_def)

lemma split_by_key:
  "sum_list (map snd cs) =
     sum_list (map snd (filter (\<lambda>c. zeros_key az (fst c)) cs)) +
     sum_list (map snd (filter (\<lambda>c. ones_key az ao hx (fst c)) cs)) +
     sum_list (map snd (filter (\<lambda>c. other_key az ao hx (fst c)) cs))"
  for cs :: "(string \<times> nat) list"
  by (induction cs) (auto simp add: ones_key_def other_key_def)

lemma at_most_one_sum:
  "length xs \<le> 1 \<Longrightarrow> sum_list (map snd xs) = (if xs = [] then 0 else snd (last xs))"
  for xs :: "(string \<times> nat) list"
  by (cases xs) auto

lemma count_samples_length: "length (count_samples counts ss) = length counts"
  by (induction counts ss rule: count_samples.induct) (simp_all add: Let_def)

lemma in_range_index: "in_range v \<Longrightarrow> nat (sint v) < 4"
  unfolding in_range_def by arith

lemma unat_increment:
  fixes w :: "32 word"
  assumes "unat w + 1 < 2 ^ 32"
  shows "unat (w + 1) = unat w + 1"
  using assms by (simp add: unat_word_ariths)

lemma sum_list_unat_update:
  fixes counts :: "32 word list"
  assumes "i < length counts" and "sum_list (map unat counts) + 1 < 2 ^ 32"
  shows "sum_list (map unat (counts[i := counts ! i + 1])) = sum_list (map unat counts) + 1"
proof -
  have le: "unat (counts ! i) \<le> sum_list (map unat counts)"
    using assms(1) elem_le_sum_list [of i "map unat counts"] by simp
  then have "unat (counts ! i + 1) = unat (counts ! i) + 1"
    using assms(2) by (intro unat_increment) simp
  then show ?thesis
    using assms(1) le by (simp add: map_update sum_list_update)
qed

lemma count_samples_unat_sum:
  "length counts = 4 \<Longrightarrow>
   sum_list (map unat counts) + length (filter accepted ss) < 2 ^ 32 \<Longrightarrow>
   sum_list (map unat (count_samples counts ss)) =
     sum_list (map unat counts) + length (filter accepted ss)"
proof (induction counts ss rule: count_samples.induct)
  case (3 counts l ss)
  show ?case
  proof (cases "in_range (ucast l)")
    case True
    then have i: "nat (sint (ucast l :: 32 word)) < length counts"
      using "3.prems"(1) in_range_index by fastforce
    have acc: "accepted (Some l)" using True by (simp add: accepted_def)
    then have b: "sum_list (map unat counts) + 1 < 2 ^ 32"
      using "3.prems"(2) by simp
    have s: "sum_list (map unat (counts[nat (sint (ucast l :: 32 word)) :=
               counts ! nat (sint (ucast l :: 32 word)) + 1])) = sum_list (map unat counts) + 1"
      using i b by (rule sum_list_unat_update)
    have "sum_list (map unat (count_samples (counts[nat (sint (ucast l :: 32 word)) :=
               counts ! nat (sint (ucast l :: 32 word)) + 1]) ss)) =
          sum_list (map unat (counts[nat (sint (ucast l :: 32 word)) :=
               counts ! nat (sint (ucast l :: 32 word)) + 1])) + length (filter accepted ss)"
      using "3.IH"(1) [OF refl True] "3.prems" acc s by simp
    then show ?thesis
      using True acc s by (simp add: Let_def)
  next
    case False
    then have "\<not> accepted (Some l)" by (simp add: accepted_def)
    then show ?thesis
      using "3.IH"(2) [OF refl False] "3.prems" False by (simp add: Let_def)
  qed
qed (simp_all add: accepted_def)

lemma sum_list_sint_unat:
  fixes ws :: "32 word list"
  assumes "sum_list (map unat ws) < 2 ^ 31"
  shows "sum_list (map sint ws) = int (sum_list (map unat ws))"
  using assms
proof (induction ws)
  case (Cons w ws)
  then have "unat w < 2 ^ 31" by simp
  then have "sint w = int (unat w)" by (rule sint_unat_small)
  then show ?case using Cons by simp
qed simp

lemma count_samples_sum:
  assumes "length (filter accepted ss) < 2 ^ 31"
  shows "sum_list (map sint (count_samples [0, 0, 0, 0] ss)) = int (length (filter accepted ss))"
proof -
  have "sum_list (map unat (count_samples [0, 0, 0, 0] ss)) =
        sum_list (map unat [0, 0, 0, 0 :: 32 word]) + length (filter accepted ss)"
    using assms by (intro count_samples_unat_sum) simp_all
  then have u: "sum_list (map unat (count_samples [0, 0, 0, 0] ss)) = length (filter accepted ss)"
    by simp
  then have "sum_list (map unat (count_samples [0, 0, 0, 0] ss)) < 2 ^ 31"
    using assms by simp
  then show ?thesis
    using u by (simp add: sum_list_sint_unat)
qed

lemma count_samples_skip:
  "\<not> accepted s \<Longrightarrow> count_samples counts (xs @ s # ys) = count_samples counts (xs @ ys)"
proof (induction counts xs rule: count_samples.induct)
  case (1 counts)
  then show ?case by (cases s) (simp_all add: accepted_def)
qed (simp_all add: Let_def)

lemma ghz_details:
  "details (ghz_report ub cfg counts) = concat (map (detail (num_shots cfg)) counts)"
  by (simp add: ghz_report_def Let_def ghz_loop_details)

lemma concat_detail:
  "concat (map (detail shots) counts) =
     map (\<lambda>c. \<lparr>label = fst c, line_count = int (snd c),
                line_pct = percentage (int (snd c)) shots\<rparr>)
       (filter (\<lambda>c. exceeds_one (percentage (int (snd c)) shots)) counts)"
  by (induction counts) (simp_all add: detail_def Let_def)

lemma exceeds_one_positive:
  "0 < shots \<Longrightarrow> exceeds_one (percentage c shots) = (shots < 100 * c)"
proof -
  assume pos: "0 < shots"
  then have p: "(0::rat) < of_int shots" by simp
  have "(1 < (of_int (100 * c) :: rat) / of_int shots) =
        ((of_int shots :: rat) < of_int (100 * c))"
    using pos_less_divide_eq [OF p, of 1 "of_int (100 * c)"] by (simp only: mult_1)
  also have "\<dots> = (shots < 100 * c)"
    by (rule of_int_less_iff)
  finally have "(1 < (of_int (100 * c) :: rat) / of_int shots) = (shots < 100 * c)" .
  moreover have ne: "shots \<noteq> 0" "\<not> (c = 0 \<and> shots < 0)"
    using pos by auto
  have "percentage c shots = Finite (of_int (100 * c) / of_int shots)"
    unfolding percentage_def by (simp only: ne if_False)
  then have "exceeds_one (percentage c shots) = (1 < (of_int (100 * c) :: rat) / of_int shots)"
    by (simp only: exceeds_one_def fp.case)
  ultimately show ?thesis by (simp only:)
qed

lemma replicate_two: "replicate 2 c = [c, c]"
  by (simp add: numeral_2_eq_2)

lemmas report_eval = ghz_report_def Let_def classify_def detail_def percentage_def exceeds_one_def
  hex_ones_str_def all_ones_value_def shl_ull_def hex_of_nat.simps hex_digit_def replicate_two

section \<open>Properties of the hexadecimal reference string\<close>

lemma hex_of_nat_length:
  "n < 16 ^ k \<Longrightarrow> 0 < k \<Longrightarrow> length (hex_of_nat n) \<le> k"
proof (induction n arbitrary: k rule: hex_of_nat.induct)
  case (1 n)
  show ?case
  proof (cases "n < 16")
    case True
    then show ?thesis using "1.prems" by (subst hex_of_nat.simps) simp
  next
    case False
    then obtain k' where k: "k = Suc k'" "0 < k'"
      using "1.prems" by (cases k; cases "k - 1") auto
    then have "n div 16 < 16 ^ k'"
      using "1.prems" by (simp add: less_mult_imp_div_less mult.commute)
    then have "length (hex_of_nat (n div 16)) \<le> k'"
      using "1.IH" False k by simp
    then show ?thesis
      using False k by (subst hex_of_nat.simps) simp
  qed
qed

lemma hex_ones_str_length: "length (hex_ones_str ub n) \<le> 18"
proof -
  have "unat (all_ones_value ub n) < 16 ^ 16"
    using unsigned_less [of "all_ones_value ub n"] by simp
  then have "length (hex_of_nat (unat (all_ones_value ub n))) \<le> 16"
    by (rule hex_of_nat_length) simp
  then show ?thesis by (simp add: hex_ones_str_def)
qed

lemma hex_of_nat_not_Nil: "hex_of_nat n \<noteq> []"
  by (subst hex_of_nat.simps) simp

lemma hex_digit_zero: "n < 16 \<Longrightarrow> hex_digit n = CHR ''0'' \<Longrightarrow> n = 0"
  by (auto simp add: hex_digit_def nth_Cons' split: if_splits)

lemma hex_of_nat_zero:
  assumes "hex_of_nat n = ''0''"
  shows "n = 0"
proof (cases "n < 16")
  case True
  with assms have "hex_digit n = CHR ''0''"
    by (subst (asm) hex_of_nat.simps) simp
  with True show ?thesis by (rule hex_digit_zero)
next
  case False
  with assms have "hex_of_nat (n div 16) @ [hex_digit (n mod 16)] = ''0''"
    by (subst (asm) hex_of_nat.simps) simp
  then have "hex_of_nat (n div 16) = []"
    by simp
  then show ?thesis using hex_of_nat_not_Nil by blast
qed

lemma hex_key_is_ones_key:
  assumes "2 \<le> n" and "n < 64"
  shows "ones_key (replicate n CHR ''0'') (replicate n CHR ''1'') (hex_ones_str ub n)
           (''0x'' @ hex_of_nat (2 ^ n - 1))"
proof -
  let ?k = "''0x'' @ hex_of_nat (2 ^ n - 1)"
  have hx: "hex_ones_str ub n = ?k"
    using assms(2) by (simp add: hex_ones_str_def all_ones_value_exact)
  have a: "?k \<noteq> replicate n CHR ''0''"
  proof
    assume "?k = replicate n CHR ''0''"
    then have "?k ! 1 = replicate n CHR ''0'' ! 1" by (simp only:)
    then show False using assms(1) by simp
  qed
  have "(2::nat) ^ 2 \<le> 2 ^ n"
    using assms(1) by (intro power_increasing) simp_all
  then have nz: "(2::nat) ^ n - 1 \<noteq> 0" by simp
  have "hex_of_nat (2 ^ n - 1) \<noteq> ''0''"
  proof
    assume "hex_of_nat (2 ^ n - 1) = ''0''"
    then have "(2::nat) ^ n - 1 = 0" by (rule hex_of_nat_zero)
    with nz show False by simp
  qed
  then have b: "?k \<noteq> ''0x0''" by simp
  have c: "?k \<noteq> ''0''" by simp
  show ?thesis
    unfolding ones_key_def zeros_key_def hx using a b c by simp
qed

section \<open>Properties of the classification\<close>

lemma length_differs: "length xs \<noteq> length ys \<Longrightarrow> xs \<noteq> ys"
  by auto

text \<open>
  The three counts of the summary, for any counts: each reference bucket holds the
  narrowed count of the last entry whose key takes its branch (0 when there is none),
  whatever earlier entries took the same branch, and the third bucket is the narrowed
  sum over the other entries.
\<close>

lemma ghz_summary_counts:
  assumes "az = replicate (nat (num_qubits cfg)) CHR ''0''"
    and "ao = replicate (nat (num_qubits cfg)) CHR ''1''"
    and "hx = hex_ones_str ub (nat (num_qubits cfg))"
  shows "map line_count (summary (ghz_report ub cfg counts)) =
     [sint (if filter (\<lambda>c. zeros_key az (fst c)) counts = [] then 0
            else word_of_nat (snd (last (filter (\<lambda>c. zeros_key az (fst c)) counts))) :: 32 word),
      sint (if filter (\<lambda>c. ones_key az ao hx (fst c)) counts = [] then 0
            else word_of_nat (snd (last (filter (\<lambda>c. ones_key az ao hx (fst c)) counts)))
              :: 32 word),
      sint (word_of_nat (sum_list (map snd (filter (\<lambda>c. other_key az ao hx (fst c)) counts)))
              :: 32 word)]"
  unfolding ghz_report_def Let_def assms
  by (simp add: ghz_loop_zeros ghz_loop_ones ghz_loop_other)

text \<open>The branch of line 149 is taken by the three spellings of all-zeros.\<close>

lemma zeros_aliases:
  "classify az ao hx (az, c) t = t\<lparr>count_all_zeros := word_of_nat c\<rparr> \<and>
   classify az ao hx (''0x0'', c) t = t\<lparr>count_all_zeros := word_of_nat c\<rparr> \<and>
   classify az ao hx (''0'', c) t = t\<lparr>count_all_zeros := word_of_nat c\<rparr>"
  by (simp add: classify_def)

text \<open>When a later entry takes the all-zeros branch again, the earlier count is lost.\<close>

lemma last_zeros_key_wins:
  assumes "zeros_key az (fst c)" and "\<forall>d\<in>set ys. \<not> zeros_key az (fst d)"
  shows "count_all_zeros (fst (ghz_loop shots az ao hx (xs @ c # ys) (t, out))) =
           word_of_nat (snd c)"
proof -
  have "filter (\<lambda>c. zeros_key az (fst c)) ys = []"
    using assms(2) by (simp add: filter_empty_conv)
  then show ?thesis
    using assms(1) by (simp add: ghz_loop_zeros)
qed

lemma hex_127: "hex_of_nat (2 ^ 127 - 1) = ''7fffffffffffffffffffffffffffffff''"
  by (simp add: hex_of_nat.simps hex_digit_def)

text \<open>
  C9 at 127 qubits. The key that is the lower-case hexadecimal string of \<open>2 ^ 127 - 1\<close>
  does not take the all-ones branch: whatever the undefined shift of line 145 produces,
  the all-ones bucket stays 0 and the count of the entry goes to the third bucket. (Up
  to 63 qubits the key takes the all-ones branch, by \<open>hex_key_is_ones_key\<close>.)
\<close>

theorem hex_key_127_counted_as_other:
  "hex_of_nat (2 ^ 127 - 1) = ''7fffffffffffffffffffffffffffffff'' \<and>
   map line_count
     (summary (ghz_report ub \<lparr>num_qubits = 127, backend_name = b, num_shots = shots\<rparr>
        [(''0x7fffffffffffffffffffffffffffffff'', k)])) =
     [0, 0, sint (word_of_nat k :: 32 word)]"
proof -
  let ?key = "''0x7fffffffffffffffffffffffffffffff''"
  let ?az = "replicate 127 CHR ''0''" and ?ao = "replicate 127 CHR ''1''"
  let ?cfg = "\<lparr>num_qubits = 127, backend_name = b, num_shots = shots\<rparr>"
  have z: "?key \<noteq> ?az" by (rule length_differs) simp
  have o: "?key \<noteq> ?ao" by (rule length_differs) simp
  have "length ?key \<noteq> length (hex_ones_str ub 127)"
    using hex_ones_str_length [of ub 127] by simp
  then have h: "?key \<noteq> hex_ones_str ub 127" by (rule length_differs)
  have other: "other_key ?az ?ao (hex_ones_str ub 127) ?key"
    unfolding other_key_def zeros_key_def using z o h by simp
  then have nz: "\<not> zeros_key ?az ?key" and no: "\<not> ones_key ?az ?ao (hex_ones_str ub 127) ?key"
    by (simp_all add: other_key_def ones_key_def)
  have "map line_count (summary (ghz_report ub ?cfg [(?key, k)])) =
          [0, 0, sint (word_of_nat k :: 32 word)]"
    using other nz no
    by (subst ghz_summary_counts [of ?az ?cfg ?ao "hex_ones_str ub 127" ub]) simp_all
  then show ?thesis
    using hex_127 by (simp only: simp_thms)
qed

theorem hex_key_127_counted_as_other_witness:
  "map line_count
     (summary (ghz_report (\<lambda>n. push_bit (n mod 64) 1)
        \<lparr>num_qubits = 127, backend_name = ''ibm_fez'', num_shots = 1024\<rparr>
        [(''0x7fffffffffffffffffffffffffffffff'', 512)])) = [0, 0, 512]"
  using hex_key_127_counted_as_other [of "\<lambda>n. push_bit (n mod 64) 1" "''ibm_fez''" 1024 512]
  by simp

section \<open>Samples out of range and the sum of the counts\<close>

lemma accepted_Some:
  "accepted (Some l) = (0 \<le> sint (ucast l :: 32 word) \<and> sint (ucast l :: 32 word) < 4)"
  by (simp add: accepted_def in_range_def)

lemmas key_eval = other_key_def zeros_key_def ones_key_def hex_ones_str_def all_ones_value_def
  shl_ull_def hex_of_nat.simps hex_digit_def replicate_two

text \<open>
  C2, as the programs have it. In the C program a sample that is a null pointer, or
  whose value as an \<^verbatim>\<open>int\<close> is outside \<open>[0, 3]\<close>, changes no counter, and the
  samples before and after it are counted as if it were not there; nothing is raised or
  logged. The N-qubit program has no range check: an entry whose key is none of the
  reference strings, in range or not, leaves the two reference buckets as they are and
  adds its count to the third, as 32-bit \<^verbatim>\<open>int\<close>s add.
\<close>

theorem out_of_range_samples:
  "(\<not> accepted s \<longrightarrow>
      count_samples counts (xs @ s # ys) = count_samples counts (xs @ ys)) \<and>
   (other_key (replicate (nat (num_qubits cfg)) CHR ''0'')
      (replicate (nat (num_qubits cfg)) CHR ''1'')
      (hex_ones_str ub (nat (num_qubits cfg))) k \<longrightarrow>
      map line_count (summary (ghz_report ub cfg (cs @ (k, c) # ds))) =
        (let old = map line_count (summary (ghz_report ub cfg (cs @ ds)))
         in [old ! 0, old ! 1, sint (word_of_int (old ! 2 + int c) :: 32 word)]))"
proof -
  let ?az = "replicate (nat (num_qubits cfg)) CHR ''0''"
  let ?ao = "replicate (nat (num_qubits cfg)) CHR ''1''"
  let ?hx = "hex_ones_str ub (nat (num_qubits cfg))"
  have "map line_count (summary (ghz_report ub cfg (cs @ (k, c) # ds))) =
        (let old = map line_count (summary (ghz_report ub cfg (cs @ ds)))
         in [old ! 0, old ! 1, sint (word_of_int (old ! 2 + int c) :: 32 word)])"
    if other: "other_key ?az ?ao ?hx k"
  proof -
    have nz: "\<not> zeros_key ?az k" and no: "\<not> ones_key ?az ?ao ?hx k"
      using other by (simp_all add: other_key_def ones_key_def)
    show ?thesis
      unfolding ghz_summary_counts [OF refl refl refl] Let_def
      using other nz no by (simp add: add.commute add.left_commute)
  qed
  then show ?thesis
    using count_samples_skip [of s counts xs ys] by blast
qed

theorem out_of_range_samples_witness:
  "count_samples [0, 0, 0, 0] [Some 0, Some 4, Some 3] =
     count_samples [0, 0, 0, 0] [Some 0, Some 3] \<and>
   map line_count (summary (ghz_report (\<lambda>n. 0)
       \<lparr>num_qubits = 2, backend_name = ''ibm_fez'', num_shots = 1024\<rparr>
       [(''00'', 500), (''100'', 24), (''11'', 500)])) =
     (let old = map line_count (summary (ghz_report (\<lambda>n. 0)
        \<lparr>num_qubits = 2, backend_name = ''ibm_fez'', num_shots = 1024\<rparr>
        [(''00'', 500), (''11'', 500)]))
      in [old ! 0, old ! 1, old ! 2 + 24])"
proof -
  have a: "\<not> accepted (Some 4)" by (simp add: accepted_Some)
  have b: "other_key (replicate (nat 2) CHR ''0'') (replicate (nat 2) CHR ''1'')
             (hex_ones_str (\<lambda>n. 0) (nat 2)) ''100''"
    by (simp add: key_eval)
  have c: "map line_count (summary (ghz_report (\<lambda>n. 0)
        \<lparr>num_qubits = 2, backend_name = ''ibm_fez'', num_shots = 1024\<rparr>
        [(''00'', 500), (''11'', 500)])) = [500, 500, 0]"
    by (simp add: report_eval)
  show ?thesis
    using a b
      out_of_range_samples [of "Some 4" "[0, 0, 0, 0]" "[Some 0]" "[Some 3]"
        "\<lparr>num_qubits = 2, backend_name = ''ibm_fez'', num_shots = 1024\<rparr>" "\<lambda>n. 0" "''100''"
        "[(''00'', 500)]" 24 "[(''11'', 500)]"]
    by (simp add: c Let_def)
qed

text \<open>
  The claim C2 fails in the N-qubit program at two qubits and the key \<^verbatim>\<open>100\<close>, the
  value \<open>2 ^ 2\<close>: its 24 shots are printed as a detail line and counted as noise.
\<close>

theorem out_of_range_key_reported:
  "ghz_report (\<lambda>n. 0) \<lparr>num_qubits = 2, backend_name = ''ibm_fez'', num_shots = 1024\<rparr>
     [(''00'', 500), (''100'', 24), (''11'', 500)] =
   \<lparr>details = [\<lparr>label = ''00'', line_count = 500, line_pct = Finite (3125 / 64)\<rparr>,
               \<lparr>label = ''100'', line_count = 24, line_pct = Finite (75 / 32)\<rparr>,
               \<lparr>label = ''11'', line_count = 500, line_pct = Finite (3125 / 64)\<rparr>],
    summary = [\<lparr>label = ''All 0s'', line_count = 500, line_pct = Finite (3125 / 64)\<rparr>,
               \<lparr>label = ''All 1s'', line_count = 500, line_pct = Finite (3125 / 64)\<rparr>,
               \<lparr>label = ''Other (noise)'', line_count = 24, line_pct = Finite (75 / 32)\<rparr>]\<rparr>"
  by (simp add: report_eval)

text \<open>
  The counters are 32-bit: with the counts \<^verbatim>\<open>01 = 2147483647\<close> and \<^verbatim>\<open>10 = 1\<close> the third
  bucket wraps around to \<open>- 2 ^ 31\<close>.
\<close>

lemma other_counter_wraps:
  "map line_count (summary (ghz_report (\<lambda>n. 0)
       \<lparr>num_qubits = 2, backend_name = ''ibm_fez'', num_shots = 1024\<rparr>
       [(''01'', 2147483647), (''10'', 1)])) = [0, 0, - 2147483648]"
  by (simp add: report_eval)

text \<open>
  C4, as the programs have it, while the counters do not wrap. In the C program, when
  fewer than \<open>2 ^ 31\<close> samples pass the guard of line 162, the four counters sum to the
  number of these samples. In the N-qubit program, when the counts sum to less than
  \<open>2 ^ 31\<close>, at most one key takes the all-zeros branch and at most one the all-ones
  branch, the three buckets sum to the sum of all counts.
\<close>

theorem counts_sum:
  "(length (filter accepted samples) < 2 ^ 31 \<longrightarrow>
      sum_list (map sint (count_samples [0, 0, 0, 0] samples)) =
        int (length (filter accepted samples))) \<and>
   (length (filter (\<lambda>c. zeros_key (replicate (nat (num_qubits cfg)) CHR ''0'') (fst c)) counts) \<le> 1 \<and>
    length (filter (\<lambda>c. ones_key (replicate (nat (num_qubits cfg)) CHR ''0'')
              (replicate (nat (num_qubits cfg)) CHR ''1'')
              (hex_ones_str ub (nat (num_qubits cfg))) (fst c)) counts) \<le> 1 \<and>
    sum_list (map snd counts) < 2 ^ 31 \<longrightarrow>
    sum_list (map line_count (summary (ghz_report ub cfg counts))) =
      int (sum_list (map snd counts)))"
proof -
  let ?az = "replicate (nat (num_qubits cfg)) CHR ''0''"
  let ?ao = "replicate (nat (num_qubits cfg)) CHR ''1''"
  let ?hx = "hex_ones_str ub (nat (num_qubits cfg))"
  let ?Z = "filter (\<lambda>c. zeros_key ?az (fst c)) counts"
  let ?O = "filter (\<lambda>c. ones_key ?az ?ao ?hx (fst c)) counts"
  let ?R = "filter (\<lambda>c. other_key ?az ?ao ?hx (fst c)) counts"
  have c: "sum_list (map sint (count_samples [0, 0, 0, 0] samples)) =
             int (length (filter accepted samples))"
    if "length (filter accepted samples) < 2 ^ 31"
    using that by (rule count_samples_sum)
  have g: "sum_list (map line_count (summary (ghz_report ub cfg counts))) =
             int (sum_list (map snd counts))"
    if z: "length ?Z \<le> 1" and o: "length ?O \<le> 1" and b: "sum_list (map snd counts) < 2 ^ 31"
  proof -
    have split: "sum_list (map snd counts) =
                 sum_list (map snd ?Z) + sum_list (map snd ?O) + sum_list (map snd ?R)"
      by (rule split_by_key)
    have zs: "sum_list (map snd ?Z) = (if ?Z = [] then 0 else snd (last ?Z))"
      using z by (rule at_most_one_sum)
    have os: "sum_list (map snd ?O) = (if ?O = [] then 0 else snd (last ?O))"
      using o by (rule at_most_one_sum)
    have bz: "sum_list (map snd ?Z) < 2 ^ 31" and bo: "sum_list (map snd ?O) < 2 ^ 31"
      and br: "sum_list (map snd ?R) < 2 ^ 31"
      using split b by simp_all
    have wz: "sint (if ?Z = [] then 0 else word_of_nat (snd (last ?Z)) :: 32 word) =
              int (sum_list (map snd ?Z))"
      using sint_of_nat_small [OF bz] zs by (cases "?Z = []") simp_all
    have wo: "sint (if ?O = [] then 0 else word_of_nat (snd (last ?O)) :: 32 word) =
              int (sum_list (map snd ?O))"
      using sint_of_nat_small [OF bo] os by (cases "?O = []") simp_all
    have wr: "sint (word_of_nat (sum_list (map snd ?R)) :: 32 word) = int (sum_list (map snd ?R))"
      using br by (rule sint_of_nat_small)
    show ?thesis
      unfolding ghz_summary_counts [OF refl refl refl]
      using wz wo wr split by simp
  qed
  from c g show ?thesis by blast
qed

theorem counts_sum_witness:
  "sum_list (map sint (count_samples [0, 0, 0, 0] [Some 0, None, Some 3, Some 4, Some 3])) = 3 \<and>
   sum_list (map line_count (summary (ghz_report (\<lambda>n. 0)
       \<lparr>num_qubits = 2, backend_name = ''ibm_fez'', num_shots = 1024\<rparr>
       [(''00'', 500), (''01'', 24), (''11'', 500)]))) = 1024"
proof -
  have a: "length (filter accepted [Some 0, None, Some 3, Some 4, Some 3]) = 3"
    by (simp add: accepted_Some) (simp add: accepted_def)
  have b: "length (filter (\<lambda>c. zeros_key (replicate (nat 2) CHR ''0'') (fst c))
             [(''00'', 500::nat), (''01'', 24), (''11'', 500)]) \<le> 1"
    by (simp add: key_eval)
  have c: "length (filter (\<lambda>c. ones_key (replicate (nat 2) CHR ''0'') (replicate (nat 2) CHR ''1'')
             (hex_ones_str (\<lambda>n. 0) (nat 2)) (fst c))
             [(''00'', 500::nat), (''01'', 24), (''11'', 500)]) \<le> 1"
    by (simp add: key_eval)
  show ?thesis
    using a b c
      counts_sum [of "[Some 0, None, Some 3, Some 4, Some 3]"
        "\<lparr>num_qubits = 2, backend_name = ''ibm_fez'', num_shots = 1024\<rparr>"
        "[(''00'', 500), (''01'', 24), (''11'', 500)]" "\<lambda>n. 0"]
    by simp
qed

text \<open>
  The claim C4 fails in the N-qubit program. At two qubits a key of three bits is
  rejected by nothing, and its 5 shots are in the sum of the buckets; and when two keys
  spell all-zeros, the counts sum to 7 and the buckets to 4.
\<close>

theorem bucket_sum_differs:
  "length ''111'' \<noteq> 2 \<and>
   sum_list (map line_count (summary (ghz_report (\<lambda>n. 0)
       \<lparr>num_qubits = 2, backend_name = ''ibm_fez'', num_shots = 1024\<rparr>
       [(''00'', 3), (''111'', 5)]))) = 8 \<and>
   sum_list (map snd [(''00'', 3::nat), (''0x0'', 4)]) = 7 \<and>
   sum_list (map line_count (summary (ghz_report (\<lambda>n. 0)
       \<lparr>num_qubits = 2, backend_name = ''ibm_fez'', num_shots = 1024\<rparr>
       [(''00'', 3), (''0x0'', 4)]))) = 4"
  by (simp add: report_eval)

section \<open>Properties of the reports\<close>

lemma bell_c_report_lines:
  "bell_c_report samples =
     map (\<lambda>(l, i). \<lparr>label = l, line_count = sint (count_samples [0, 0, 0, 0] samples ! i),
                       line_pct = percentage (sint (count_samples [0, 0, 0, 0] samples ! i))
                                    (int (length samples))\<rparr>)
       [(''00'', 0), (''01'', 1), (''10'', 2), (''11'', 3)]"
  by (simp add: bell_c_report_def Let_def)

text \<open>
  C3, as the programs have it. Every line of the N-qubit report, detail or summary, and
  every line of the C++ Bell report carries \<^verbatim>\<open>100.0 * count / num_shots\<close> with the
  configured shot count. The four lines of the C Bell report carry
  \<^verbatim>\<open>100.0 * count / num_samples\<close>, with the number of samples the service returned,
  skipped ones included.
\<close>

theorem percentage_denominators:
  "(\<forall>l\<in>set (details (ghz_report ub cfg counts) @ summary (ghz_report ub cfg counts)).
      line_pct l = percentage (line_count l) (num_shots cfg)) \<and>
   (\<forall>l\<in>set (bell_cpp_report cfg counts).
      line_pct l = percentage (line_count l) (num_shots cfg)) \<and>
   (\<forall>l\<in>set (bell_c_report samples).
      line_pct l = percentage (line_count l) (int (length samples)))"
proof -
  have d: "\<forall>l\<in>set (details (ghz_report ub cfg counts)).
             line_pct l = percentage (line_count l) (num_shots cfg)"
    by (simp add: ghz_details concat_detail)
  have s: "\<forall>l\<in>set (summary (ghz_report ub cfg counts)).
             line_pct l = percentage (line_count l) (num_shots cfg)"
    by (simp add: ghz_report_def Let_def)
  have p: "\<forall>l\<in>set (bell_cpp_report cfg counts).
             line_pct l = percentage (line_count l) (num_shots cfg)"
    by (auto simp add: bell_cpp_report_def)
  have c: "\<forall>l\<in>set (bell_c_report samples).
             line_pct l = percentage (line_count l) (int (length samples))"
    by (simp add: bell_c_report_lines)
  from d s p c show ?thesis by (simp add: ball_Un)
qed

theorem percentage_denominators_witness:
  "map line_pct (summary (ghz_report (\<lambda>n. 0)
       \<lparr>num_qubits = 2, backend_name = ''ibm_fez'', num_shots = 1024\<rparr> [(''00'', 256)])) =
     [percentage 256 1024, percentage 0 1024, percentage 0 1024] \<and>
   map line_pct (bell_cpp_report
       \<lparr>num_qubits = 2, backend_name = ''ibm_fez'', num_shots = 1024\<rparr> [(''00'', 256)]) =
     [percentage 256 1024] \<and>
   map line_pct (bell_c_report [Some 0, Some 3]) =
     [percentage 1 2, percentage 0 2, percentage 0 2, percentage 1 2]"
proof -
  have a: "map line_count (summary (ghz_report (\<lambda>n. 0)
       \<lparr>num_qubits = 2, backend_name = ''ibm_fez'', num_shots = 1024\<rparr> [(''00'', 256)])) =
     [256, 0, 0]"
    by (simp add: report_eval)
  have b: "map line_count (bell_c_report [Some 0, Some 3]) = [1, 0, 0, 1]"
    by (simp add: bell_c_report_def Let_def in_range_def)
  note t = percentage_denominators [of "\<lambda>n. 0"
      "\<lparr>num_qubits = 2, backend_name = ''ibm_fez'', num_shots = 1024\<rparr>" "[(''00'', 256)]"
      "[Some 0, Some 3]"]
  have "map line_pct (summary (ghz_report (\<lambda>n. 0)
       \<lparr>num_qubits = 2, backend_name = ''ibm_fez'', num_shots = 1024\<rparr> [(''00'', 256)])) =
     map (\<lambda>c. percentage c 1024) (map line_count (summary (ghz_report (\<lambda>n. 0)
       \<lparr>num_qubits = 2, backend_name = ''ibm_fez'', num_shots = 1024\<rparr> [(''00'', 256)])))"
    using t by (simp add: ball_Un)
  moreover have "map line_pct (bell_c_report [Some 0, Some 3]) =
     map (\<lambda>c. percentage c 2) (map line_count (bell_c_report [Some 0, Some 3]))"
    using t by simp
  moreover have "map line_pct (bell_cpp_report
       \<lparr>num_qubits = 2, backend_name = ''ibm_fez'', num_shots = 1024\<rparr> [(''00'', 256)]) =
     [percentage 256 1024]"
    by (simp add: bell_cpp_report_def)
  ultimately show ?thesis
    unfolding a b by simp
qed

text \<open>
  The claim C3 fails in the C program: configured with 1024 shots and given two samples,
  it reports 50 percent for one shot, not \<open>100 / 1024\<close>.
\<close>

theorem bell_c_divides_by_samples:
  "bell_c_parse ''bell_state_c'' [] =
     Run \<lparr>num_qubits = 2, backend_name = ''ibm_fez'', num_shots = 1024\<rparr> \<and>
   bell_c_report [Some 0, Some 3] =
     [\<lparr>label = ''00'', line_count = 1, line_pct = Finite 50\<rparr>,
      \<lparr>label = ''01'', line_count = 0, line_pct = Finite 0\<rparr>,
      \<lparr>label = ''10'', line_count = 0, line_pct = Finite 0\<rparr>,
      \<lparr>label = ''11'', line_count = 1, line_pct = Finite 50\<rparr>] \<and>
   percentage 1 1024 = Finite (25 / 256)"
  by (simp add: bell_c_parse_def bell_c_report_def Let_def in_range_def percentage_def)

text \<open>
  C5, as the programs have it. No program checks the shot count or guards the division.
  All three accept the shot count \<^verbatim>\<open>0\<close> from the command line. With zero shots the
  N-qubit program reports all the same, and each summary percentage is not a number when
  its count is 0 and infinite otherwise; so is each percentage of the C++ Bell report.
  With no counts and a positive shot count the N-qubit report has no detail line and
  shows count 0 and 0 percent in the three buckets. The C program divides by the number
  of samples: with none, its four lines show count 0 and not a number.
\<close>

theorem zero_shots_unguarded:
  "(\<forall>l\<in>set (summary (ghz_report ub (cfg\<lparr>num_shots := 0\<rparr>) counts)).
      line_pct l = (if line_count l = 0 then NaN
                    else if 0 < line_count l then PosInf else NegInf)) \<and>
   (\<forall>l\<in>set (bell_cpp_report (cfg\<lparr>num_shots := 0\<rparr>) counts).
      line_pct l = (if line_count l = 0 then NaN else PosInf)) \<and>
   (0 < shots \<longrightarrow>
      ghz_report ub (cfg\<lparr>num_shots := shots\<rparr>) [] =
        \<lparr>details = [],
         summary = [\<lparr>label = ''All 0s'', line_count = 0, line_pct = Finite 0\<rparr>,
                    \<lparr>label = ''All 1s'', line_count = 0, line_pct = Finite 0\<rparr>,
                    \<lparr>label = ''Other (noise)'', line_count = 0, line_pct = Finite 0\<rparr>]\<rparr>) \<and>
   bell_c_report [] =
     [\<lparr>label = ''00'', line_count = 0, line_pct = NaN\<rparr>,
      \<lparr>label = ''01'', line_count = 0, line_pct = NaN\<rparr>,
      \<lparr>label = ''10'', line_count = 0, line_pct = NaN\<rparr>,
      \<lparr>label = ''11'', line_count = 0, line_pct = NaN\<rparr>] \<and>
   (atoi a1 = Some nq \<and> 2 \<le> nq \<and> nq \<le> 127 \<longrightarrow>
      ghz_main ub (\<lambda>c. Some counts) prog [a1, b, ''0''] =
        Reported (ghz_report ub \<lparr>num_qubits = nq, backend_name = b, num_shots = 0\<rparr> counts)) \<and>
   bell_c_parse prog [b, ''0''] = Run \<lparr>num_qubits = 2, backend_name = b, num_shots = 0\<rparr> \<and>
   bell_cpp_parse prog [b, ''0''] = Run \<lparr>num_qubits = 2, backend_name = b, num_shots = 0\<rparr>"
proof -
  have a: "\<forall>l\<in>set (summary (ghz_report ub (cfg\<lparr>num_shots := 0\<rparr>) counts)).
             line_pct l = (if line_count l = 0 then NaN
                           else if 0 < line_count l then PosInf else NegInf)"
    by (simp add: ghz_report_def Let_def percentage_def)
  have a': "\<forall>l\<in>set (bell_cpp_report (cfg\<lparr>num_shots := 0\<rparr>) counts).
             line_pct l = (if line_count l = 0 then NaN else PosInf)"
    by (auto simp add: bell_cpp_report_def percentage_def)
  have b: "ghz_report ub (cfg\<lparr>num_shots := shots\<rparr>) [] =
        \<lparr>details = [],
         summary = [\<lparr>label = ''All 0s'', line_count = 0, line_pct = Finite 0\<rparr>,
                    \<lparr>label = ''All 1s'', line_count = 0, line_pct = Finite 0\<rparr>,
                    \<lparr>label = ''Other (noise)'', line_count = 0, line_pct = Finite 0\<rparr>]\<rparr>"
    if "0 < shots"
    using that by (simp add: ghz_report_def Let_def percentage_def)
  have c: "bell_c_report [] =
     [\<lparr>label = ''00'', line_count = 0, line_pct = NaN\<rparr>,
      \<lparr>label = ''01'', line_count = 0, line_pct = NaN\<rparr>,
      \<lparr>label = ''10'', line_count = 0, line_pct = NaN\<rparr>,
      \<lparr>label = ''11'', line_count = 0, line_pct = NaN\<rparr>]"
    by (simp add: bell_c_report_def Let_def percentage_def)
  have z: "atoi ''0'' = Some 0" by (simp add: atoi_eval)
  have d: "ghz_main ub (\<lambda>c. Some counts) prog [a1, b, ''0''] =
        Reported (ghz_report ub \<lparr>num_qubits = nq, backend_name = b, num_shots = 0\<rparr> counts)"
    if "atoi a1 = Some nq" "2 \<le> nq" "nq \<le> 127"
    using that z by (simp add: ghz_main_def ghz_parse_def)
  have e: "bell_c_parse prog [b, ''0''] = Run \<lparr>num_qubits = 2, backend_name = b, num_shots = 0\<rparr>"
    using z by (simp add: bell_c_parse_def)
  have f: "bell_cpp_parse prog [b, ''0''] = Run \<lparr>num_qubits = 2, backend_name = b, num_shots = 0\<rparr>"
    using z by (simp add: bell_cpp_parse_def)
  from a a' b c d e f show ?thesis by blast
qed

theorem zero_shots_unguarded_witness:
  "map line_pct (summary (ghz_report (\<lambda>n. 0)
      \<lparr>num_qubits = 2, backend_name = ''ibm_fez'', num_shots = 0\<rparr> [(''00'', 3)])) =
     [PosInf, NaN, NaN] \<and>
   map line_pct (bell_cpp_report
      \<lparr>num_qubits = 2, backend_name = ''ibm_fez'', num_shots = 0\<rparr> [(''00'', 3)]) = [PosInf] \<and>
   map line_pct (summary (ghz_report (\<lambda>n. 0)
      \<lparr>num_qubits = 2, backend_name = ''ibm_fez'', num_shots = 1024\<rparr> [])) =
     [Finite 0, Finite 0, Finite 0] \<and>
   ghz_main (\<lambda>n. 0) (\<lambda>c. Some [(''00'', 3)]) ''ghz_20q'' [''2'', ''ibm_fez'', ''0''] =
     Reported (ghz_report (\<lambda>n. 0)
       \<lparr>num_qubits = 2, backend_name = ''ibm_fez'', num_shots = 0\<rparr> [(''00'', 3)])"
proof -
  have a: "atoi ''2'' = Some 2" by (simp add: atoi_eval)
  have s: "(0::int) < 1024" by simp
  have c: "map line_count (summary (ghz_report (\<lambda>n. 0)
      \<lparr>num_qubits = 2, backend_name = ''ibm_fez'', num_shots = 0\<rparr> [(''00'', 3)])) = [3, 0, 0]"
    by (simp add: report_eval)
  have c': "map line_count (bell_cpp_report
      \<lparr>num_qubits = 2, backend_name = ''ibm_fez'', num_shots = 0\<rparr> [(''00'', 3)]) = [3]"
    by (simp add: bell_cpp_report_def)
  note t = zero_shots_unguarded [of "\<lambda>n. 0"
      "\<lparr>num_qubits = 2, backend_name = ''ibm_fez'', num_shots = 1024\<rparr>" "[(''00'', 3)]" 1024
      "''2''" 2 "''ghz_20q''" "''ibm_fez''"]
  have "map line_pct (summary (ghz_report (\<lambda>n. 0)
      \<lparr>num_qubits = 2, backend_name = ''ibm_fez'', num_shots = 0\<rparr> [(''00'', 3)])) =
     map (\<lambda>c. if c = 0 then NaN else if 0 < c then PosInf else NegInf)
       (map line_count (summary (ghz_report (\<lambda>n. 0)
      \<lparr>num_qubits = 2, backend_name = ''ibm_fez'', num_shots = 0\<rparr> [(''00'', 3)])))"
    using t by simp
  moreover have "map line_pct (bell_cpp_report
      \<lparr>num_qubits = 2, backend_name = ''ibm_fez'', num_shots = 0\<rparr> [(''00'', 3)]) =
     map (\<lambda>c. if c = 0 then NaN else PosInf) (map line_count (bell_cpp_report
      \<lparr>num_qubits = 2, backend_name = ''ibm_fez'', num_shots = 0\<rparr> [(''00'', 3)]))"
    using t by simp
  ultimately show ?thesis
    unfolding c c' using t a s by simp
qed

text \<open>
  The claim C5 fails at \<^verbatim>\<open>ghz_20q 2 ibm_fez 0\<close> with no counts: no error, and three
  percentages that are not numbers.
\<close>

theorem zero_shots_reported:
  "ghz_main (\<lambda>n. 0) (\<lambda>cfg. Some []) ''ghz_20q'' [''2'', ''ibm_fez'', ''0''] =
     Reported \<lparr>details = [],
       summary = [\<lparr>label = ''All 0s'', line_count = 0, line_pct = NaN\<rparr>,
                  \<lparr>label = ''All 1s'', line_count = 0, line_pct = NaN\<rparr>,
                  \<lparr>label = ''Other (noise)'', line_count = 0, line_pct = NaN\<rparr>]\<rparr>"
  by (simp add: ghz_main_def ghz_parse_def atoi_eval report_eval)

text \<open>
  C8, as the programs have it. The N-qubit report has one detail line for each entry
  with \<^verbatim>\<open>100.0 * count / num_shots > 1.0\<close>, in the order of the counts (for a positive
  shot count: with \<open>100 * count > num_shots\<close>), and always the three summary lines. The C
  Bell report always has its four lines, one per two-bit outcome, and the C++ Bell
  report one line per entry of the counts: neither applies a threshold or prints a
  summary.
\<close>

theorem report_lines:
  "details (ghz_report ub cfg counts) =
     map (\<lambda>c. \<lparr>label = fst c, line_count = int (snd c),
                line_pct = percentage (int (snd c)) (num_shots cfg)\<rparr>)
       (filter (\<lambda>c. exceeds_one (percentage (int (snd c)) (num_shots cfg))) counts) \<and>
   (0 < num_shots cfg \<longrightarrow>
      (\<forall>c. exceeds_one (percentage c (num_shots cfg)) = (num_shots cfg < 100 * c))) \<and>
   map label (summary (ghz_report ub cfg counts)) = [''All 0s'', ''All 1s'', ''Other (noise)''] \<and>
   map label (bell_c_report samples) = [''00'', ''01'', ''10'', ''11''] \<and>
   map label (bell_cpp_report cfg counts) = map fst counts"
proof -
  have a: "details (ghz_report ub cfg counts) =
     map (\<lambda>c. \<lparr>label = fst c, line_count = int (snd c),
                line_pct = percentage (int (snd c)) (num_shots cfg)\<rparr>)
       (filter (\<lambda>c. exceeds_one (percentage (int (snd c)) (num_shots cfg))) counts)"
    by (simp only: ghz_details concat_detail)
  have b: "\<forall>c. exceeds_one (percentage c (num_shots cfg)) = (num_shots cfg < 100 * c)"
    if "0 < num_shots cfg"
    using exceeds_one_positive [OF that] by blast
  have c: "map label (summary (ghz_report ub cfg counts)) =
             [''All 0s'', ''All 1s'', ''Other (noise)'']"
    by (simp add: ghz_report_def Let_def)
  have d: "map label (bell_c_report samples) = [''00'', ''01'', ''10'', ''11'']"
    by (simp add: bell_c_report_def Let_def)
  have e: "map label (bell_cpp_report cfg counts) = map fst counts"
    by (simp add: bell_cpp_report_def comp_def)
  from a b c d e show ?thesis by blast
qed

theorem report_lines_witness:
  "map label (details (ghz_report (\<lambda>n. 0)
      \<lparr>num_qubits = 2, backend_name = ''ibm_fez'', num_shots = 1024\<rparr>
      [(''00'', 510), (''01'', 10), (''10'', 11), (''11'', 493)])) = [''00'', ''10'', ''11''] \<and>
   exceeds_one (percentage 10 1024) = False \<and>
   exceeds_one (percentage 11 1024) = True"
proof -
  note t = report_lines [of "\<lambda>n. 0"
      "\<lparr>num_qubits = 2, backend_name = ''ibm_fez'', num_shots = 1024\<rparr>"
      "[(''00'', 510), (''01'', 10), (''10'', 11), (''11'', 493)]" "[]"]
  have e: "exceeds_one (percentage c 1024) = (1024 < 100 * c)" for c
    using t by simp
  have "details (ghz_report (\<lambda>n. 0)
      \<lparr>num_qubits = 2, backend_name = ''ibm_fez'', num_shots = 1024\<rparr>
      [(''00'', 510), (''01'', 10), (''10'', 11), (''11'', 493)]) =
     map (\<lambda>c. \<lparr>label = fst c, line_count = int (snd c),
                line_pct = percentage (int (snd c)) 1024\<rparr>)
       (filter (\<lambda>c. exceeds_one (percentage (int (snd c)) 1024))
          [(''00'', 510), (''01'', 10), (''10'', 11), (''11'', 493)])"
    using t by simp
  then show ?thesis
    by (simp add: e)
qed

text \<open>
  The claim C8 fails in the C program: after two samples \<^verbatim>\<open>00\<close> it prints the other
  three outcomes with count 0 and 0 percent, which is not above 1 percent.
\<close>

theorem bell_c_prints_every_outcome:
  "bell_c_report [Some 0, Some 0] =
     [\<lparr>label = ''00'', line_count = 2, line_pct = Finite 100\<rparr>,
      \<lparr>label = ''01'', line_count = 0, line_pct = Finite 0\<rparr>,
      \<lparr>label = ''10'', line_count = 0, line_pct = Finite 0\<rparr>,
      \<lparr>label = ''11'', line_count = 0, line_pct = Finite 0\<rparr>] \<and>
   \<not> exceeds_one (Finite 0)"
  by (simp add: bell_c_report_def Let_def in_range_def percentage_def exceeds_one_def)

end
